theory Spec2Isabelle
  imports Complex_Main
begin

section \<open>Values of the JavaScript runtime\<close>

text \<open>
  A JavaScript \<open>number\<close> is an IEEE double. The service never computes with its
  numbers: it only tests them for truthiness (\<open>if (x)\<close>, \<open>x || d\<close>) and hands
  them to the codec engine. Finite values are kept as reals (\<open>-0\<close> is identified with
  \<open>0\<close>, both are falsy), the three special values stay apart.
\<close>

datatype number = Num real | PosInfinity | NegInfinity | NaN

fun truthy_number :: "number \<Rightarrow> bool" where
  "truthy_number (Num x) = (x \<noteq> 0)"
| "truthy_number PosInfinity = True"
| "truthy_number NegInfinity = True"
| "truthy_number NaN = False"

text \<open>
  A property that the TypeScript type declares as \<open>number\<close> or \<open>boolean\<close> can still be
  \<open>undefined\<close> when the call arrives (the option records come from request payloads),
  and the \<open>||\<close> fallbacks of the source are written for that case. A property is
  therefore an \<open>option\<close>: \<open>None\<close> is \<open>undefined\<close>.
\<close>

definition truthy :: "number option \<Rightarrow> bool" where
  "truthy x = (case x of None \<Rightarrow> False | Some v \<Rightarrow> truthy_number v)"

text \<open>\<open>x || d\<close> on numbers and on booleans.\<close>

definition or_number :: "number option \<Rightarrow> number \<Rightarrow> number" where
  "or_number x d = (case x of None \<Rightarrow> d | Some v \<Rightarrow> if truthy_number v then v else d)"

definition or_bool :: "bool option \<Rightarrow> bool \<Rightarrow> bool" where
  "or_bool x d = (case x of None \<Rightarrow> d | Some v \<Rightarrow> if v then v else d)"

text \<open>
  A \<open>Buffer\<close> is a byte sequence. The service never looks inside one, so the bytes are
  kept as natural numbers and nothing depends on their range.
\<close>

type_synonym buffer = "nat list"

section \<open>Option records\<close>

text \<open>\<open>sharp.Color\<close>: a colour name or an RGBA object.\<close>

datatype color =
    ColorString string
  | ColorRGBA "number option" "number option" "number option" "number option"

datatype position = PositionNumber number | PositionString string

datatype js_value = JNumber number | JString string | JBoolean bool

text \<open>Encoder options (\<open>sharp.OutputOptions | sharp.JpegOptions | ...\<close>): named properties.\<close>

type_synonym output_options = "(string \<times> js_value) list"

record convertProperties =
  cp_format :: string
  cp_options :: "output_options option"

record resize_options =
  ro_width :: "number option"
  ro_height :: "number option"
  ro_fit :: "string option"
  ro_position :: "position option"
  ro_background :: "color option"
  ro_kernel :: "string option"
  ro_withoutEnlargement :: "bool option"
  ro_withoutReduction :: "bool option"
  ro_fastShrinkOnLoad :: "bool option"

record resizeProperties =
  rp_width :: "number option"
  rp_height :: "number option"
  rp_options :: "resize_options option"

record cropProperties =
  crop_left :: number
  crop_top :: number
  crop_width :: number
  crop_height :: number

record rotate_options =
  rot_background :: "color option"

record rotateProperties =
  angle :: "number option"
  rot_options :: "rotate_options option"

record effectsProperties =
  median :: "number option"
  blur :: "number option"
  negate :: "bool option"
  grayscale :: "bool option"
  threshold :: "number option"
  thresholdGrayscale :: "bool option"
  brightness :: "number option"
  saturation :: "number option"
  hue :: "number option"
  lightness :: "number option"
  tint :: "color option"

text \<open>\<open>sharp.OverlayOptions\<close>: the overlay image and how it is laid over the base.\<close>

datatype overlay_input = OverlayPath string | OverlayBuffer buffer

record overlay_options =
  input :: "overlay_input option"
  blend :: "string option"
  gravity :: "string option"
  ov_top :: "number option"
  ov_left :: "number option"
  tile :: "bool option"
  premultiplied :: "bool option"
  density :: "number option"

section \<open>The codec engine\<close>

text \<open>
  \<open>sharp(input)\<close> starts a pipeline on a file path or on a buffer; the chained calls add
  operations to it in the order they are written, and \<open>toBuffer\<close>, \<open>toFile\<close>,
  \<open>metadata\<close> or \<open>stats\<close> runs it.
\<close>

datatype source = FromPath string | FromBuffer buffer

datatype pipeline_op =
    ToFormat string "output_options option"
  | Resize "number option" "number option"
  | ResizeWith resize_options
  | Extract cropProperties
  | Rotate "number option" "rotate_options option"
  | Flip
  | Flop
  | Threshold number bool
  | Median number
  | Blur number
  | Negate bool
  | Grayscale bool
  | Modulate number number number number
  | Tint "color option"
  | Trim number
  | Flatten "color option"
  | Png
  | Composite "overlay_options list"

record metadata =
  md_format :: "string option"
  md_width :: "number option"
  md_height :: "number option"
  md_channels :: "number option"
  md_hasAlpha :: "bool option"

record stats =
  st_isOpaque :: bool
  st_entropy :: number
  st_sharpness :: number

record output_info =
  oi_format :: string
  oi_size :: number
  oi_width :: number
  oi_height :: number
  oi_channels :: number

text \<open>
  The engine is the library \<open>sharp\<close>, which is not part of the repository: it is a
  parameter of every operation. A run either fails with the message of the error it throws
  or returns its result. Runs may read files (a path as source or as overlay), so they see
  the file system \<open>'fs\<close>; only \<open>toFile\<close> can change it. The constructor's
  \<open>cache(false)\<close> configures the engine once and belongs to the parameter.
\<close>

record 'fs engine =
  toBuffer :: "'fs \<Rightarrow> source \<Rightarrow> pipeline_op list \<Rightarrow> string + buffer"
  get_metadata :: "'fs \<Rightarrow> source \<Rightarrow> string + metadata"
  get_stats :: "'fs \<Rightarrow> source \<Rightarrow> string + stats"
  toFile :: "'fs \<Rightarrow> source \<Rightarrow> string \<Rightarrow> (string + output_info) \<times> 'fs"

section \<open>Errors, log and state\<close>

text \<open>
  What a \<open>catch (error)\<close> can receive: an error thrown by the engine, or the
  \<open>InternalServerErrorException(message, description)\<close> that another operation of the
  service has thrown. \<open>error.message\<close> reads the message of either.
\<close>

datatype thrown = EngineError string | InternalServerErrorException string string

fun message :: "thrown \<Rightarrow> string" where
  "message (EngineError m) = m"
| "message (InternalServerErrorException m d) = m"

text \<open>
  A log line of \<open>this.logger\<close>: \<open>debug(text)\<close>, or \<open>error(`text: ${error}`)\<close>, kept as
  the text before the colon and the error that is printed after it.
\<close>

datatype log_entry = LogDebug string | LogError string thrown

text \<open>The requests that reach the engine, in the order they are made.\<close>

datatype engine_call =
    ToBufferCall source "pipeline_op list"
  | MetadataCall source
  | StatsCall source
  | ToFileCall source string

text \<open>
  The state around a call: the file system, the log written so far and the engine requests
  made so far.
\<close>

record 'fs world =
  files :: 'fs
  logged :: "log_entry list"
  calls :: "engine_call list"

definition logger_debug :: "string \<Rightarrow> 'fs world \<Rightarrow> 'fs world" where
  "logger_debug text w = w\<lparr>logged := logged w @ [LogDebug text]\<rparr>"

definition logger_error :: "string \<Rightarrow> thrown \<Rightarrow> 'fs world \<Rightarrow> 'fs world" where
  "logger_error text e w = w\<lparr>logged := logged w @ [LogError text e]\<rparr>"

text \<open>The body of every \<open>catch\<close> block: log the error, throw the exception.\<close>

definition catch_rethrow ::
  "string \<Rightarrow> string \<Rightarrow> thrown \<Rightarrow> 'fs world \<Rightarrow> (thrown + 'a) \<times> 'fs world" where
  "catch_rethrow text description e w =
     (Inl (InternalServerErrorException (message e) description), logger_error text e w)"

text \<open>Running a pipeline: the request is recorded, the engine answers.\<close>

definition run_toBuffer ::
  "'fs engine \<Rightarrow> source \<Rightarrow> pipeline_op list \<Rightarrow> 'fs world \<Rightarrow> (thrown + buffer) \<times> 'fs world" where
  "run_toBuffer eng src ops w =
     (map_sum EngineError id (toBuffer eng (files w) src ops),
      w\<lparr>calls := calls w @ [ToBufferCall src ops]\<rparr>)"

definition run_metadata ::
  "'fs engine \<Rightarrow> source \<Rightarrow> 'fs world \<Rightarrow> (thrown + metadata) \<times> 'fs world" where
  "run_metadata eng src w =
     (map_sum EngineError id (get_metadata eng (files w) src),
      w\<lparr>calls := calls w @ [MetadataCall src]\<rparr>)"

definition run_stats ::
  "'fs engine \<Rightarrow> source \<Rightarrow> 'fs world \<Rightarrow> (thrown + stats) \<times> 'fs world" where
  "run_stats eng src w =
     (map_sum EngineError id (get_stats eng (files w) src),
      w\<lparr>calls := calls w @ [StatsCall src]\<rparr>)"

definition run_toFile ::
  "'fs engine \<Rightarrow> source \<Rightarrow> string \<Rightarrow> 'fs world \<Rightarrow> (thrown + output_info) \<times> 'fs world" where
  "run_toFile eng src target w =
     (case toFile eng (files w) src target of
        (r, fs') \<Rightarrow>
          (map_sum EngineError id r,
           w\<lparr>files := fs', calls := calls w @ [ToFileCall src target]\<rparr>))"

text \<open>\<open>try { return await body } catch (error) { ... }\<close> around one engine run.\<close>

definition try_catch ::
  "string \<Rightarrow> string \<Rightarrow> (thrown + 'a) \<times> 'fs world \<Rightarrow> (thrown + 'a) \<times> 'fs world" where
  "try_catch text description r =
     (case r of
        (Inr v, w) \<Rightarrow> (Inr v, w)
      | (Inl e, w) \<Rightarrow> catch_rethrow text description e w)"

section \<open>The operations of \<open>SharpService\<close>\<close>

text \<open>
  Every operation takes the engine, its arguments and the state, and returns what the
  caller gets (\<open>Inr\<close> the awaited value, \<open>Inl\<close> the thrown error) with the state after the
  call. The two strings of each \<open>catch\<close> block are the ones of the source, slips included.
\<close>

definition getMetadata ::
  "'fs engine \<Rightarrow> buffer \<Rightarrow> 'fs world \<Rightarrow> (thrown + metadata) \<times> 'fs world" where
  "getMetadata eng imageBuffer w =
     try_catch ''Error getting image metadata'' ''Error getting image metadata''
       (run_metadata eng (FromBuffer imageBuffer) (logger_debug ''getting image metadata'' w))"

definition getStats ::
  "'fs engine \<Rightarrow> buffer \<Rightarrow> 'fs world \<Rightarrow> (thrown + stats) \<times> 'fs world" where
  "getStats eng imageBuffer w =
     try_catch ''Error getting image stats'' ''Error getting image stats''
       (run_stats eng (FromBuffer imageBuffer) (logger_debug ''getting image stats'' w))"

definition storeImage ::
  "'fs engine \<Rightarrow> buffer \<Rightarrow> string \<Rightarrow> string \<Rightarrow> 'fs world
     \<Rightarrow> (thrown + output_info) \<times> 'fs world" where
  "storeImage eng imageBuffer path imageName w =
     try_catch ''Error storing image'' ''Error storing image''
       (run_toFile eng (FromBuffer imageBuffer) (path @ ''/'' @ imageName)
          (logger_debug (''storing image: '' @ imageName) w))"

definition convertFormat ::
  "'fs engine \<Rightarrow> string \<Rightarrow> convertProperties \<Rightarrow> 'fs world \<Rightarrow> (thrown + buffer) \<times> 'fs world" where
  "convertFormat eng imagePath convertProperties w =
     try_catch ''Error converting image'' ''Error converting image''
       (let w1 = logger_debug
                   (''convert image: '' @ imagePath @ '' to '' @ cp_format convertProperties) w
        in case cp_options convertProperties of
             Some opts \<Rightarrow>
               run_toBuffer eng (FromPath imagePath)
                 [ToFormat (cp_format convertProperties) (Some opts)] w1
           | None \<Rightarrow>
               run_toBuffer eng (FromPath imagePath)
                 [ToFormat (cp_format convertProperties) None] w1)"

definition resizeImage ::
  "'fs engine \<Rightarrow> buffer \<Rightarrow> resizeProperties \<Rightarrow> 'fs world \<Rightarrow> (thrown + buffer) \<times> 'fs world" where
  "resizeImage eng imageBuffer resizeProperties w =
     try_catch ''Error converting image'' ''Error converting image''
       (run_toBuffer eng (FromBuffer imageBuffer)
          [Resize (rp_width resizeProperties) (rp_height resizeProperties)]
          (logger_debug ''resizing image'' w))"

definition getImageBuffer ::
  "'fs engine \<Rightarrow> string \<Rightarrow> 'fs world \<Rightarrow> (thrown + buffer) \<times> 'fs world" where
  "getImageBuffer eng imagePath w =
     try_catch ''Error getting image buffer'' ''Error getting image buffer''
       (run_toBuffer eng (FromPath imagePath) [] (logger_debug ''getting image buffer'' w))"

definition cropImage ::
  "'fs engine \<Rightarrow> buffer \<Rightarrow> cropProperties \<Rightarrow> 'fs world \<Rightarrow> (thrown + buffer) \<times> 'fs world" where
  "cropImage eng imageBuffer cropProperties w =
     try_catch ''Error cropping image'' ''Error cropping image''
       (run_toBuffer eng (FromBuffer imageBuffer) [Extract cropProperties]
          (logger_debug ''cropping image'' w))"

definition rotateImage ::
  "'fs engine \<Rightarrow> buffer \<Rightarrow> rotateProperties \<Rightarrow> 'fs world \<Rightarrow> (thrown + buffer) \<times> 'fs world" where
  "rotateImage eng imageBuffer rotateProperties w =
     try_catch ''Error rotating image'' ''Error rotating image''
       (run_toBuffer eng (FromBuffer imageBuffer)
          [Rotate (angle rotateProperties) (rot_options rotateProperties)]
          (logger_debug ''rotating image'' w))"

definition verticalFlipImage ::
  "'fs engine \<Rightarrow> buffer \<Rightarrow> 'fs world \<Rightarrow> (thrown + buffer) \<times> 'fs world" where
  "verticalFlipImage eng imageBuffer w =
     try_catch ''Error flipping image vertical'' ''Error flipping image vertical''
       (run_toBuffer eng (FromBuffer imageBuffer) [Flip]
          (logger_debug ''flipping image vertical'' w))"

definition horizontalFlipImage ::
  "'fs engine \<Rightarrow> buffer \<Rightarrow> 'fs world \<Rightarrow> (thrown + buffer) \<times> 'fs world" where
  "horizontalFlipImage eng imageBuffer w =
     try_catch ''Error flipping image vertical'' ''Error flipping image vertical''
       (run_toBuffer eng (FromBuffer imageBuffer) [Flop]
          (logger_debug ''flipping image vertical'' w))"

text \<open>
  \<open>setImageEffects\<close>: the local variable \<open>imageBuffer\<close> is rebound to the thresholded
  buffer when \<open>effectsProperties.threshold\<close> is truthy; the chain then runs on it.
\<close>

definition effects_chain :: "effectsProperties \<Rightarrow> pipeline_op list" where
  "effects_chain effectsProperties =
     [Median (or_number (median effectsProperties) (Num 3)),
      Blur (or_number (blur effectsProperties) (Num 0.3)),
      Negate (or_bool (negate effectsProperties) False),
      Grayscale (or_bool (grayscale effectsProperties) False),
      Modulate (or_number (brightness effectsProperties) (Num 1))
               (or_number (saturation effectsProperties) (Num 1))
               (or_number (hue effectsProperties) (Num 0))
               (or_number (lightness effectsProperties) (Num 1)),
      Tint (tint effectsProperties)]"

definition setImageEffects ::
  "'fs engine \<Rightarrow> buffer \<Rightarrow> effectsProperties \<Rightarrow> 'fs world \<Rightarrow> (thrown + buffer) \<times> 'fs world" where
  "setImageEffects eng imageBuffer effectsProperties w =
     try_catch ''Error applying image effects'' ''Error applying image effects''
       (let w1 = logger_debug ''applying image effects'' w in
        if truthy (threshold effectsProperties) then
          (case run_toBuffer eng (FromBuffer imageBuffer)
                  [Threshold (or_number (threshold effectsProperties) (Num 120))
                             (or_bool (thresholdGrayscale effectsProperties) False)] w1 of
             (Inl e, w2) \<Rightarrow> (Inl e, w2)
           | (Inr imageBuffer', w2) \<Rightarrow>
               run_toBuffer eng (FromBuffer imageBuffer') (effects_chain effectsProperties) w2)
        else run_toBuffer eng (FromBuffer imageBuffer) (effects_chain effectsProperties) w1)"

definition trimImage ::
  "'fs engine \<Rightarrow> buffer \<Rightarrow> number option \<Rightarrow> 'fs world \<Rightarrow> (thrown + buffer) \<times> 'fs world" where
  "trimImage eng imageBuffer trimLevel w =
     try_catch ''Error trim image'' ''Error trim image''
       (run_toBuffer eng (FromBuffer imageBuffer) [Trim (or_number trimLevel (Num 10))]
          (logger_debug ''trim image'' w))"

definition setTransparencyBackgroundColor ::
  "'fs engine \<Rightarrow> buffer \<Rightarrow> color option \<Rightarrow> 'fs world \<Rightarrow> (thrown + buffer) \<times> 'fs world" where
  "setTransparencyBackgroundColor eng imageBuffer transparencyBackgroundColor w =
     try_catch ''Error setting transparency background color''
       ''Error setting transparency background color''
       (run_toBuffer eng (FromBuffer imageBuffer) [Flatten transparencyBackgroundColor]
          (logger_debug ''setting transparency background color'' w))"

text \<open>
  \<open>composeImages\<close>. The options object belongs to the caller and the assignment
  \<open>compositeOptions.input = imageBuffer2\<close> writes into it, so the operation returns the
  object as the caller finds it afterwards, next to the result and the state.
  \<open>imageBuffer1\<close> is a local variable: rebinding it does not touch the caller's buffer.
\<close>

definition compose_resize :: "metadata \<Rightarrow> resize_options" where
  "compose_resize md =
     \<lparr>ro_width = md_width md, ro_height = md_height md, ro_fit = None,
      ro_position = Some (PositionString ''centre''), ro_background = None,
      ro_kernel = None, ro_withoutEnlargement = None, ro_withoutReduction = None,
      ro_fastShrinkOnLoad = None\<rparr>"

definition composeImages ::
  "'fs engine \<Rightarrow> buffer \<Rightarrow> buffer \<Rightarrow> overlay_options \<Rightarrow> 'fs world
     \<Rightarrow> (thrown + buffer) \<times> overlay_options \<times> 'fs world" where
  "composeImages eng imageBuffer1 imageBuffer2 compositeOptions w =
     (case run_toBuffer eng (FromBuffer imageBuffer1) [Png]
             (logger_debug ''composing images'' w) of
        (Inl e, w1) \<Rightarrow>
          (case catch_rethrow ''Error composing images'' ''Error composing images'' e w1 of
             (r, w') \<Rightarrow> (r, compositeOptions, w'))
      | (Inr png1, w1) \<Rightarrow>
          (case getMetadata eng imageBuffer2 w1 of
             (Inl e, w2) \<Rightarrow>
               (case catch_rethrow ''Error composing images'' ''Error composing images'' e w2 of
                  (r, w') \<Rightarrow> (r, compositeOptions, w'))
           | (Inr md, w2) \<Rightarrow>
               (case run_toBuffer eng (FromBuffer png1) [ResizeWith (compose_resize md)] w2 of
                  (Inl e, w3) \<Rightarrow>
                    (case catch_rethrow ''Error composing images'' ''Error composing images''
                            e w3 of
                       (r, w') \<Rightarrow> (r, compositeOptions, w'))
                | (Inr resized, w3) \<Rightarrow>
                    (let compositeOptions' =
                           compositeOptions\<lparr>input := Some (OverlayBuffer imageBuffer2)\<rparr>
                     in case try_catch ''Error composing images'' ''Error composing images''
                               (run_toBuffer eng (FromBuffer resized)
                                  [Composite [compositeOptions']] w3) of
                          (r, w') \<Rightarrow> (r, compositeOptions', w')))))"

section \<open>A small engine for concrete runs\<close>

text \<open>
  Concrete runs need an engine. This one knows images of three bytes, format, width and
  height (format 0 is PNG, 1 is JPEG), and keeps files as a list of paths with their
  contents. It resizes to whole positive sizes only, refuses a crop rectangle that leaves
  the image and an overlay that is larger than the base, and keeps the format of its input
  unless it is asked for another one.
\<close>

type_synonym demo_image = "nat \<times> nat \<times> nat"

type_synonym demo_files = "(string \<times> buffer) list"

definition demo_decode :: "buffer \<Rightarrow> string + demo_image" where
  "demo_decode b =
     (case b of
        [f, w, h] \<Rightarrow> Inr (f, w, h)
      | _ \<Rightarrow> Inl ''Input buffer contains unsupported image format'')"

definition demo_encode :: "demo_image \<Rightarrow> buffer" where
  "demo_encode img = (case img of (f, w, h) \<Rightarrow> [f, w, h])"

definition demo_format :: "nat \<Rightarrow> string" where
  "demo_format f = (if f = 0 then ''png'' else if f = 1 then ''jpeg'' else ''webp'')"

fun whole :: "number \<Rightarrow> nat option" where
  "whole (Num x) = (if 0 \<le> x \<and> real (nat \<lfloor>x\<rfloor>) = x then Some (nat \<lfloor>x\<rfloor>) else None)"
| "whole PosInfinity = None"
| "whole NegInfinity = None"
| "whole NaN = None"

definition pixels :: "number \<Rightarrow> nat option" where
  "pixels v = (case whole v of Some n \<Rightarrow> if 0 < n then Some n else None | None \<Rightarrow> None)"

definition demo_resize ::
  "number option \<Rightarrow> number option \<Rightarrow> demo_image \<Rightarrow> string + demo_image" where
  "demo_resize wo ho img =
     (case img of (f, w, h) \<Rightarrow>
        (case (case wo of None \<Rightarrow> Some w | Some v \<Rightarrow> pixels v,
               case ho of None \<Rightarrow> Some h | Some v \<Rightarrow> pixels v) of
           (Some a, Some b) \<Rightarrow> Inr (f, a, b)
         | _ \<Rightarrow> Inl ''Expected positive integer for width or height''))"

definition demo_fits :: "nat \<Rightarrow> nat \<Rightarrow> overlay_options \<Rightarrow> bool" where
  "demo_fits w h ov =
     (case input ov of
        Some (OverlayBuffer b) \<Rightarrow>
          (case demo_decode b of Inr (f', w', h') \<Rightarrow> w' \<le> w \<and> h' \<le> h | Inl m \<Rightarrow> False)
      | _ \<Rightarrow> False)"

definition demo_extract :: "cropProperties \<Rightarrow> demo_image \<Rightarrow> string + demo_image" where
  "demo_extract r img =
     (case img of (f, w, h) \<Rightarrow>
        (case (whole (crop_left r), whole (crop_top r),
               pixels (crop_width r), pixels (crop_height r)) of
           (Some l, Some t, Some cw, Some ch) \<Rightarrow>
             if l + cw \<le> w \<and> t + ch \<le> h then Inr (f, cw, ch)
             else Inl ''extract_area: bad extract area''
         | _ \<Rightarrow> Inl ''Expected integer for extract area''))"

fun demo_apply :: "pipeline_op \<Rightarrow> demo_image \<Rightarrow> string + demo_image" where
  "demo_apply Png (f, w, h) = Inr (0, w, h)"
| "demo_apply (ToFormat name opts) (f, w, h) =
     (if name = ''png'' then Inr (0, w, h)
      else if name = ''jpeg'' then Inr (1, w, h)
      else Inl ''Unsupported output format'')"
| "demo_apply (Resize wo ho) img = demo_resize wo ho img"
| "demo_apply (ResizeWith ro) img = demo_resize (ro_width ro) (ro_height ro) img"
| "demo_apply (Extract r) img = demo_extract r img"
| "demo_apply (Composite ovs) (f, w, h) =
     (if list_all (demo_fits w h) ovs then Inr (f, w, h)
      else Inl ''Image to composite must have same dimensions or smaller'')"
| "demo_apply (Rotate a ro) img = Inr img"
| "demo_apply Flip img = Inr img"
| "demo_apply Flop img = Inr img"
| "demo_apply (Threshold t g) img = Inr img"
| "demo_apply (Median m) img = Inr img"
| "demo_apply (Blur b) img = Inr img"
| "demo_apply (Negate n) img = Inr img"
| "demo_apply (Grayscale g) img = Inr img"
| "demo_apply (Modulate b s h l) img = Inr img"
| "demo_apply (Tint c) img = Inr img"
| "demo_apply (Trim t) img = Inr img"
| "demo_apply (Flatten c) img = Inr img"

fun demo_run :: "pipeline_op list \<Rightarrow> demo_image \<Rightarrow> string + demo_image" where
  "demo_run [] img = Inr img"
| "demo_run (p # ps) img =
     (case demo_apply p img of Inl m \<Rightarrow> Inl m | Inr img' \<Rightarrow> demo_run ps img')"

definition demo_open :: "demo_files \<Rightarrow> source \<Rightarrow> string + demo_image" where
  "demo_open fs src =
     (case src of
        FromBuffer b \<Rightarrow> demo_decode b
      | FromPath p \<Rightarrow>
          (case map_of fs p of None \<Rightarrow> Inl ''Input file is missing'' | Some b \<Rightarrow> demo_decode b))"

definition demo_toBuffer :: "demo_files \<Rightarrow> source \<Rightarrow> pipeline_op list \<Rightarrow> string + buffer" where
  "demo_toBuffer fs src ops =
     (case demo_open fs src of
        Inl m \<Rightarrow> Inl m
      | Inr img \<Rightarrow> map_sum id demo_encode (demo_run ops img))"

definition demo_metadata :: "demo_files \<Rightarrow> source \<Rightarrow> string + metadata" where
  "demo_metadata fs src =
     (case demo_open fs src of
        Inl m \<Rightarrow> Inl m
      | Inr (f, w, h) \<Rightarrow>
          Inr \<lparr>md_format = Some (demo_format f), md_width = Some (Num (real w)),
               md_height = Some (Num (real h)), md_channels = Some (Num 3),
               md_hasAlpha = Some False\<rparr>)"

definition demo_stats :: "demo_files \<Rightarrow> source \<Rightarrow> string + stats" where
  "demo_stats fs src =
     (case demo_open fs src of
        Inl m \<Rightarrow> Inl m
      | Inr img \<Rightarrow> Inr \<lparr>st_isOpaque = True, st_entropy = Num 0, st_sharpness = Num 0\<rparr>)"

definition demo_toFile ::
  "demo_files \<Rightarrow> source \<Rightarrow> string \<Rightarrow> (string + output_info) \<times> demo_files" where
  "demo_toFile fs src target =
     (case demo_open fs src of
        Inl m \<Rightarrow> (Inl m, fs)
      | Inr (f, w, h) \<Rightarrow>
          (Inr \<lparr>oi_format = demo_format f, oi_size = Num 3, oi_width = Num (real w),
                oi_height = Num (real h), oi_channels = Num 3\<rparr>,
           (target, [f, w, h]) # fs))"

definition demo_engine :: "demo_files engine" where
  "demo_engine =
     \<lparr>toBuffer = demo_toBuffer, get_metadata = demo_metadata, get_stats = demo_stats,
      toFile = demo_toFile\<rparr>"

definition demo_world :: "demo_files world" where
  "demo_world = \<lparr>files = [], logged = [], calls = []\<rparr>"

definition demo_overlay :: overlay_options where
  "demo_overlay =
     \<lparr>input = None, blend = Some ''over'', gravity = None, ov_top = None, ov_left = None,
      tile = None, premultiplied = None, density = None\<rparr>"

text \<open>
  A second engine differs from the first in one point: it reads the four numbers of a crop
  rectangle as 32-bit integers before it uses them, the way a native binding does that
  takes a JavaScript number through \<open>ToInt32\<close> (a finite number is truncated and wraps
  modulo \<open>2\<^sup>3\<^sup>2\<close> into the signed range, any other is 0).
\<close>

fun int32_number :: "number \<Rightarrow> number" where
  "int32_number (Num x) =
     Num (real_of_int ((\<lfloor>x\<rfloor> + 2147483648) mod 4294967296 - 2147483648))"
| "int32_number PosInfinity = Num 0"
| "int32_number NegInfinity = Num 0"
| "int32_number NaN = Num 0"

fun int32_extract :: "pipeline_op \<Rightarrow> pipeline_op" where
  "int32_extract (Extract r) =
     Extract \<lparr>crop_left = int32_number (crop_left r), crop_top = int32_number (crop_top r),
              crop_width = int32_number (crop_width r),
              crop_height = int32_number (crop_height r)\<rparr>"
| "int32_extract (ToFormat name opts) = ToFormat name opts"
| "int32_extract (Resize wo ho) = Resize wo ho"
| "int32_extract (ResizeWith ro) = ResizeWith ro"
| "int32_extract (Rotate a ro) = Rotate a ro"
| "int32_extract Flip = Flip"
| "int32_extract Flop = Flop"
| "int32_extract (Threshold t g) = Threshold t g"
| "int32_extract (Median m) = Median m"
| "int32_extract (Blur b) = Blur b"
| "int32_extract (Negate n) = Negate n"
| "int32_extract (Grayscale g) = Grayscale g"
| "int32_extract (Modulate b s h l) = Modulate b s h l"
| "int32_extract (Tint c) = Tint c"
| "int32_extract (Trim t) = Trim t"
| "int32_extract (Flatten c) = Flatten c"
| "int32_extract Png = Png"
| "int32_extract (Composite ovs) = Composite ovs"

definition int32_engine :: "demo_files engine" where
  "int32_engine =
     \<lparr>toBuffer = (\<lambda>fs src ops. demo_toBuffer fs src (map int32_extract ops)),
      get_metadata = demo_metadata, get_stats = demo_stats, toFile = demo_toFile\<rparr>"

section \<open>Notions of the specification\<close>

text \<open>
  The pixel dimensions and the encoded format of a buffer are what decoding its metadata
  reports; a buffer that does not decode has neither.
\<close>

definition dimensions_of ::
  "'fs engine \<Rightarrow> 'fs \<Rightarrow> buffer \<Rightarrow> (number option \<times> number option) option" where
  "dimensions_of eng fs b =
     (case get_metadata eng fs (FromBuffer b) of
        Inr md \<Rightarrow> Some (md_width md, md_height md)
      | Inl m \<Rightarrow> None)"

definition format_of :: "'fs engine \<Rightarrow> 'fs \<Rightarrow> buffer \<Rightarrow> string option" where
  "format_of eng fs b =
     (case get_metadata eng fs (FromBuffer b) of
        Inr md \<Rightarrow> md_format md
      | Inl m \<Rightarrow> None)"

text \<open>
  A crop rectangle exceeds an image of width \<open>W\<close> and height \<open>H\<close> when it starts left
  of or above the image, or ends right of or below it.
\<close>

fun finite_number :: "number \<Rightarrow> real option" where
  "finite_number (Num x) = Some x"
| "finite_number PosInfinity = None"
| "finite_number NegInfinity = None"
| "finite_number NaN = None"

definition exceeds_bounds :: "cropProperties \<Rightarrow> real \<Rightarrow> real \<Rightarrow> bool" where
  "exceeds_bounds r W H =
     (case (finite_number (crop_left r), finite_number (crop_top r),
            finite_number (crop_width r), finite_number (crop_height r)) of
        (Some l, Some t, Some cw, Some ch) \<Rightarrow> l < 0 \<or> t < 0 \<or> W < l + cw \<or> H < t + ch
      | _ \<Rightarrow> False)"

text \<open>
  A nonzero threshold value is supplied when the property is present and is a number other
  than zero; \<open>NaN\<close> is not a number and counts as no value.
\<close>

definition nonzero_supplied :: "number option \<Rightarrow> bool" where
  "nonzero_supplied x = (x \<noteq> None \<and> x \<noteq> Some (Num 0) \<and> x \<noteq> Some NaN)"

text \<open>What a caller receives when the engine run of an operation has failed with \<open>m\<close>.\<close>

definition processing_failure :: "string \<Rightarrow> string + 'a \<Rightarrow> thrown + 'a" where
  "processing_failure summary r =
     (case r of Inl m \<Rightarrow> Inl (InternalServerErrorException m summary) | Inr v \<Rightarrow> Inr v)"

text \<open>
  Steps 1 to 3 of the composition algorithm: buffer A normalised to PNG, the metadata of
  buffer B read, the normalised A resized to B's dimensions. The value is the resized
  buffer when all three have succeeded.
\<close>

definition compose_prepared :: "'fs engine \<Rightarrow> 'fs \<Rightarrow> buffer \<Rightarrow> buffer \<Rightarrow> buffer option" where
  "compose_prepared eng fs A B =
     (case toBuffer eng fs (FromBuffer A) [Png] of
        Inl m \<Rightarrow> None
      | Inr png1 \<Rightarrow>
          (case get_metadata eng fs (FromBuffer B) of
             Inl m \<Rightarrow> None
           | Inr md \<Rightarrow>
               (case toBuffer eng fs (FromBuffer png1)
                       [ResizeWith
                          \<lparr>ro_width = md_width md, ro_height = md_height md, ro_fit = None,
                           ro_position = Some (PositionString ''centre''),
                           ro_background = None, ro_kernel = None,
                           ro_withoutEnlargement = None, ro_withoutReduction = None,
                           ro_fastShrinkOnLoad = None\<rparr>] of
                  Inl m \<Rightarrow> None
                | Inr resized \<Rightarrow> Some resized)))"

definition demo_effects :: effectsProperties where
  "demo_effects =
     \<lparr>median = None, blur = None, negate = None, grayscale = Some True,
      threshold = Some (Num 128), thresholdGrayscale = None, brightness = None,
      saturation = Some (Num 2), hue = None, lightness = None, tint = None\<rparr>"

section \<open>Facts about the building blocks\<close>

lemmas demo_simps =
  demo_engine_def demo_world_def demo_overlay_def demo_toBuffer_def demo_metadata_def
  demo_stats_def demo_toFile_def demo_open_def demo_decode_def demo_encode_def
  demo_format_def demo_resize_def demo_extract_def demo_fits_def pixels_def

lemmas service_simps =
  try_catch_def catch_rethrow_def run_toBuffer_def run_metadata_def run_stats_def
  run_toFile_def logger_debug_def logger_error_def

lemma run_toBuffer_Inr:
  "run_toBuffer eng src ops w = (Inr b, w') \<longleftrightarrow>
     toBuffer eng (files w) src ops = Inr b \<and> w' = w\<lparr>calls := calls w @ [ToBufferCall src ops]\<rparr>"
  unfolding run_toBuffer_def by (cases "toBuffer eng (files w) src ops") auto

lemma run_metadata_Inr:
  "run_metadata eng src w = (Inr md, w') \<longleftrightarrow>
     get_metadata eng (files w) src = Inr md \<and> w' = w\<lparr>calls := calls w @ [MetadataCall src]\<rparr>"
  unfolding run_metadata_def by (cases "get_metadata eng (files w) src") auto

lemma try_catch_Inr:
  "try_catch text description r = (Inr v, w') \<longleftrightarrow> r = (Inr v, w')"
  unfolding try_catch_def catch_rethrow_def by (auto split: prod.splits sum.splits)

lemma getMetadata_Inr:
  "getMetadata eng b w = (Inr md, w') \<longleftrightarrow>
     get_metadata eng (files w) (FromBuffer b) = Inr md \<and>
     w' = w\<lparr>logged := logged w @ [LogDebug ''getting image metadata''],
            calls := calls w @ [MetadataCall (FromBuffer b)]\<rparr>"
  unfolding getMetadata_def try_catch_Inr run_metadata_Inr logger_debug_def by auto

lemma try_catch_toBuffer:
  "fst (try_catch text summary (run_toBuffer eng src ops w)) =
     processing_failure summary (toBuffer eng (files w) src ops)"
  unfolding try_catch_def catch_rethrow_def run_toBuffer_def processing_failure_def
  by (cases "toBuffer eng (files w) src ops") simp_all

lemma files_logger_debug: "files (logger_debug text w) = files w"
  by (simp add: logger_debug_def)

lemma files_try_catch: "files (snd (try_catch text summary r)) = files (snd r)"
  by (cases r; cases "fst r") (simp_all add: try_catch_def catch_rethrow_def logger_error_def)

lemma files_run_toBuffer: "files (snd (run_toBuffer eng src ops w)) = files w"
  by (simp add: run_toBuffer_def)

lemma files_run_metadata: "files (snd (run_metadata eng src w)) = files w"
  by (simp add: run_metadata_def)

lemma files_run_stats: "files (snd (run_stats eng src w)) = files w"
  by (simp add: run_stats_def)

lemma files_run_toFile:
  "files (snd (run_toFile eng src target w)) = snd (toFile eng (files w) src target)"
  by (simp add: run_toFile_def split: prod.splits)

lemmas files_simps =
  files_try_catch files_run_toBuffer files_run_metadata files_run_stats files_run_toFile
  files_logger_debug

lemma calls_try_catch_toBuffer:
  "calls (snd (try_catch text summary (run_toBuffer eng src ops w))) =
     calls w @ [ToBufferCall src ops]"
  unfolding try_catch_def catch_rethrow_def run_toBuffer_def logger_error_def
  by (cases "toBuffer eng (files w) src ops") simp_all

lemma truthy_nonzero_supplied: "truthy x = nonzero_supplied x"
proof (cases x)
  case None
  then show ?thesis by (simp add: truthy_def nonzero_supplied_def)
next
  case (Some v)
  then show ?thesis by (cases v) (simp_all add: truthy_def nonzero_supplied_def)
qed

lemma or_number_supplied: "nonzero_supplied x \<Longrightarrow> x = Some (or_number x d)"
  by (cases x) (auto simp: or_number_def truthy_nonzero_supplied [symmetric] truthy_def)

lemma setImageEffects_plain:
  assumes "\<not> nonzero_supplied (threshold ep)"
  shows "setImageEffects eng b ep w =
    try_catch ''Error applying image effects'' ''Error applying image effects''
      (run_toBuffer eng (FromBuffer b) (effects_chain ep)
         (logger_debug ''applying image effects'' w))"
  using assms by (simp add: setImageEffects_def Let_def truthy_nonzero_supplied)

lemma setImageEffects_threshold_fails:
  assumes "nonzero_supplied (threshold ep)"
    and "toBuffer eng (files w) (FromBuffer b)
           [Threshold (or_number (threshold ep) (Num 120))
              (or_bool (thresholdGrayscale ep) False)] = Inl m"
  shows "setImageEffects eng b ep w =
    (Inl (InternalServerErrorException m ''Error applying image effects''),
     w\<lparr>logged := logged w @ [LogDebug ''applying image effects'',
          LogError ''Error applying image effects'' (EngineError m)],
        calls := calls w @ [ToBufferCall (FromBuffer b)
           [Threshold (or_number (threshold ep) (Num 120))
              (or_bool (thresholdGrayscale ep) False)]]\<rparr>)"
  using assms by (simp add: setImageEffects_def Let_def truthy_nonzero_supplied service_simps)

lemma setImageEffects_threshold_passes:
  assumes "nonzero_supplied (threshold ep)"
    and "toBuffer eng (files w) (FromBuffer b)
           [Threshold (or_number (threshold ep) (Num 120))
              (or_bool (thresholdGrayscale ep) False)] = Inr working"
  shows "setImageEffects eng b ep w =
    try_catch ''Error applying image effects'' ''Error applying image effects''
      (run_toBuffer eng (FromBuffer working) (effects_chain ep)
         (w\<lparr>logged := logged w @ [LogDebug ''applying image effects''],
             calls := calls w @ [ToBufferCall (FromBuffer b)
           [Threshold (or_number (threshold ep) (Num 120))
              (or_bool (thresholdGrayscale ep) False)]]\<rparr>))"
  using assms
  by (simp add: setImageEffects_def Let_def truthy_nonzero_supplied run_toBuffer_def
        logger_debug_def)

lemma or_bool_False: "or_bool x False = (x = Some True)"
  by (cases x) (auto simp: or_bool_def)

lemma or_number_cases: "or_number x d = (if nonzero_supplied x then the x else d)"
  by (cases x) (auto simp: or_number_def truthy_nonzero_supplied [symmetric] truthy_def)

lemma or_number_never_zero: "d \<noteq> Num 0 \<Longrightarrow> or_number x d \<noteq> Num 0"
  by (cases x; cases "the x") (auto simp: or_number_def)

lemma setImageEffects_calls:
  "calls (snd (setImageEffects eng b ep w)) = calls w @
     (if nonzero_supplied (threshold ep) then
        ToBufferCall (FromBuffer b)
          [Threshold (the (threshold ep)) (thresholdGrayscale ep = Some True)] #
        (case toBuffer eng (files w) (FromBuffer b)
                [Threshold (the (threshold ep)) (thresholdGrayscale ep = Some True)] of
           Inl m \<Rightarrow> []
         | Inr working \<Rightarrow> [ToBufferCall (FromBuffer working) (effects_chain ep)])
      else [ToBufferCall (FromBuffer b) (effects_chain ep)])"
proof (cases "nonzero_supplied (threshold ep)")
  case False
  then show ?thesis
    unfolding setImageEffects_plain [OF False] calls_try_catch_toBuffer
    by (simp add: logger_debug_def)
next
  case True
  have t: "or_number (threshold ep) (Num 120) = the (threshold ep)"
    using True by (simp add: or_number_cases)
  show ?thesis
  proof (cases "toBuffer eng (files w) (FromBuffer b)
      [Threshold (or_number (threshold ep) (Num 120)) (or_bool (thresholdGrayscale ep) False)]")
    case (Inl m)
    show ?thesis
      unfolding setImageEffects_threshold_fails [OF True Inl]
      using True Inl by (simp add: t or_bool_False)
  next
    case (Inr working)
    show ?thesis
      unfolding setImageEffects_threshold_passes [OF True Inr] calls_try_catch_toBuffer
      using True Inr by (simp add: t or_bool_False)
  qed
qed

lemma files_setImageEffects: "files (snd (setImageEffects eng b ep w)) = files w"
proof (cases "truthy (threshold ep)")
  case False
  then show ?thesis
    by (simp add: setImageEffects_def Let_def files_simps)
next
  case True
  show ?thesis
  proof (cases "toBuffer eng (files w) (FromBuffer b)
      [Threshold (or_number (threshold ep) (Num 120)) (or_bool (thresholdGrayscale ep) False)]")
    case (Inl m)
    with True show ?thesis
      by (simp add: setImageEffects_def Let_def files_try_catch run_toBuffer_def
            logger_debug_def)
  next
    case (Inr working)
    with True show ?thesis
      by (simp add: setImageEffects_def Let_def files_try_catch run_toBuffer_def
            logger_debug_def)
  qed
qed

lemma composeImages_frame:
  "files (snd (snd (composeImages eng A B opts w))) = files w \<and>
   fst (snd (composeImages eng A B opts w)) =
     (if compose_prepared eng (files w) A B = None then opts
      else opts\<lparr>input := Some (OverlayBuffer B)\<rparr>)"
  unfolding composeImages_def getMetadata_def service_simps compose_resize_def
    compose_prepared_def Let_def
  by (auto split: sum.splits)

lemma composeImages_success:
  assumes "composeImages eng A B opts w = (Inr r, opts', w')"
  shows "\<exists>png1 md resized.
           toBuffer eng (files w) (FromBuffer A) [Png] = Inr png1 \<and>
           get_metadata eng (files w) (FromBuffer B) = Inr md \<and>
           toBuffer eng (files w) (FromBuffer png1) [ResizeWith (compose_resize md)] = Inr resized \<and>
           toBuffer eng (files w) (FromBuffer resized)
             [Composite [opts\<lparr>input := Some (OverlayBuffer B)\<rparr>]] = Inr r \<and>
           files w' = files w"
proof -
  from assms obtain png1 w1 where s1:
    "run_toBuffer eng (FromBuffer A) [Png] (logger_debug ''composing images'' w) = (Inr png1, w1)"
    unfolding composeImages_def catch_rethrow_def
    by (auto split: sum.splits prod.splits)
  with assms obtain md w2 where s2: "getMetadata eng B w1 = (Inr md, w2)"
    unfolding composeImages_def catch_rethrow_def
    by (auto split: sum.splits prod.splits)
  with s1 assms obtain resized w3 where s3:
    "run_toBuffer eng (FromBuffer png1) [ResizeWith (compose_resize md)] w2 = (Inr resized, w3)"
    unfolding composeImages_def catch_rethrow_def
    by (auto split: sum.splits prod.splits)
  with s1 s2 assms have s4:
    "run_toBuffer eng (FromBuffer resized)
       [Composite [opts\<lparr>input := Some (OverlayBuffer B)\<rparr>]] w3 = (Inr r, w')"
    unfolding composeImages_def
    by (auto simp: Let_def try_catch_Inr split: prod.splits)
  from s1 s2 s3 s4 show ?thesis
    unfolding run_toBuffer_Inr getMetadata_Inr logger_debug_def
    by auto
qed


section \<open>Facts about the small engine\<close>

lemma whole_real: "whole v = Some n \<Longrightarrow> v = Num (real n)"
  by (cases v) (auto split: if_splits)

lemma pixels_real: "pixels v = Some n \<Longrightarrow> v = Num (real n)"
  by (auto simp: pixels_def dest: whole_real split: option.splits if_splits)

lemma demo_toBuffer_single:
  "toBuffer demo_engine fs (FromBuffer b) [p] = Inr r \<longleftrightarrow>
     (\<exists>f w h img. b = [f, w, h] \<and> demo_apply p (f, w, h) = Inr img \<and> r = demo_encode img)"
  by (auto simp: demo_engine_def demo_toBuffer_def demo_open_def demo_decode_def
        split: list.splits sum.splits)

lemma demo_metadata_image:
  "get_metadata demo_engine fs (FromBuffer [f, w, h]) =
     Inr \<lparr>md_format = Some (demo_format f), md_width = Some (Num (real w)),
          md_height = Some (Num (real h)), md_channels = Some (Num 3),
          md_hasAlpha = Some False\<rparr>"
  by (simp add: demo_engine_def demo_metadata_def demo_open_def demo_decode_def)

lemma demo_resize_exact:
  assumes "toBuffer demo_engine fs (FromBuffer b) [ResizeWith ro] = Inr r"
    and "ro_width ro = Some x" and "ro_height ro = Some y"
  shows "dimensions_of demo_engine fs r = Some (Some x, Some y)"
proof -
  from assms(1) obtain f w h img where
    b: "b = [f, w, h]" and img: "demo_resize (ro_width ro) (ro_height ro) (f, w, h) = Inr img"
    and r: "r = demo_encode img"
    unfolding demo_toBuffer_single by auto
  from img assms(2,3) obtain m n where
    mn: "pixels x = Some m" "pixels y = Some n" "img = (f, m, n)"
    by (auto simp: demo_resize_def split: option.splits)
  then have "x = Num (real m)" "y = Num (real n)"
    by (auto dest: pixels_real)
  with r mn(3) show ?thesis
    by (simp add: dimensions_of_def demo_encode_def demo_metadata_image)
qed

lemma demo_composite_same:
  assumes "toBuffer demo_engine fs (FromBuffer b) [Composite ovs] = Inr r"
  shows "r = b"
  using assms unfolding demo_toBuffer_single
  by (auto simp: demo_encode_def split: if_splits)

lemma demo_png_format:
  assumes "toBuffer demo_engine fs src [Png] = Inr r"
  shows "format_of demo_engine fs r = Some ''png''"
proof -
  from assms obtain f w h where "r = [0, w, h]"
    by (auto simp: demo_engine_def demo_toBuffer_def demo_encode_def
          split: sum.splits)
  then show ?thesis
    by (simp add: format_of_def demo_metadata_image demo_format_def)
qed

lemma demo_resize_format:
  assumes "toBuffer demo_engine fs (FromBuffer b) [ResizeWith ro] = Inr r"
  shows "format_of demo_engine fs r = format_of demo_engine fs b"
proof -
  from assms obtain f w h img where
    b: "b = [f, w, h]" and img: "demo_resize (ro_width ro) (ro_height ro) (f, w, h) = Inr img"
    and r: "r = demo_encode img"
    unfolding demo_toBuffer_single by auto
  from img obtain m n where "img = (f, m, n)"
    by (auto simp: demo_resize_def split: option.splits)
  with b r show ?thesis
    by (simp add: format_of_def demo_encode_def demo_metadata_image)
qed

lemma demo_compose_run:
  "composeImages demo_engine [1, 7, 9] [1, 3, 4] demo_overlay demo_world =
     (Inr [0, 3, 4],
      demo_overlay\<lparr>input := Some (OverlayBuffer [1, 3, 4])\<rparr>,
      \<lparr>files = [],
       logged = [LogDebug ''composing images'', LogDebug ''getting image metadata''],
       calls =
         [ToBufferCall (FromBuffer [1, 7, 9]) [Png],
          MetadataCall (FromBuffer [1, 3, 4]),
          ToBufferCall (FromBuffer [0, 7, 9]) [ResizeWith (compose_resize
             \<lparr>md_format = Some ''jpeg'', md_width = Some (Num 3), md_height = Some (Num 4),
              md_channels = Some (Num 3), md_hasAlpha = Some False\<rparr>)],
          ToBufferCall (FromBuffer [0, 3, 4])
            [Composite [demo_overlay\<lparr>input := Some (OverlayBuffer [1, 3, 4])\<rparr>]]]\<rparr>)"
  by (simp add: composeImages_def getMetadata_def service_simps demo_simps compose_resize_def
        Let_def)


section \<open>Composition\<close>

text \<open>
  Claim C1. Compose makes its engine requests in one order and stops at the first that
  fails: (1) buffer A is re-encoded to PNG; (2) the metadata of buffer B is read;
  (3) the re-encoded A is resized to the width and height of that metadata with position
  \<open>centre\<close> and no other option; (4) B becomes the \<open>input\<close> of the caller's composite
  options; (5) one composite pass of these options runs over the resized A, and its
  buffer is the result. A failing step gives the failure for composing images with the
  engine's message, after exactly the requests made up to it; the options are unchanged
  when a step before (4) has failed.
\<close>

theorem composeImages_steps:
  assumes "composeImages eng A B opts w = (res, opts', w')"
  shows
   "(\<forall>m. toBuffer eng (files w) (FromBuffer A) [Png] = Inl m \<longrightarrow>
        res = Inl (InternalServerErrorException m ''Error composing images'') \<and>
        opts' = opts \<and>
        calls w' = calls w @ [ToBufferCall (FromBuffer A) [Png]]) \<and>
    (\<forall>png1. toBuffer eng (files w) (FromBuffer A) [Png] = Inr png1 \<longrightarrow>
       (\<forall>m. get_metadata eng (files w) (FromBuffer B) = Inl m \<longrightarrow>
          res = Inl (InternalServerErrorException m ''Error composing images'') \<and>
          opts' = opts \<and>
          calls w' = calls w @
            [ToBufferCall (FromBuffer A) [Png], MetadataCall (FromBuffer B)]) \<and>
       (\<forall>md resize.
          get_metadata eng (files w) (FromBuffer B) = Inr md \<and>
          resize = ResizeWith
            \<lparr>ro_width = md_width md, ro_height = md_height md, ro_fit = None,
             ro_position = Some (PositionString ''centre''), ro_background = None,
             ro_kernel = None, ro_withoutEnlargement = None, ro_withoutReduction = None,
             ro_fastShrinkOnLoad = None\<rparr> \<longrightarrow>
          (\<forall>m. toBuffer eng (files w) (FromBuffer png1) [resize] = Inl m \<longrightarrow>
             res = Inl (InternalServerErrorException m ''Error composing images'') \<and>
             opts' = opts \<and>
             calls w' = calls w @
               [ToBufferCall (FromBuffer A) [Png], MetadataCall (FromBuffer B),
                ToBufferCall (FromBuffer png1) [resize]]) \<and>
          (\<forall>resized. toBuffer eng (files w) (FromBuffer png1) [resize] = Inr resized \<longrightarrow>
             opts' = opts\<lparr>input := Some (OverlayBuffer B)\<rparr> \<and>
             calls w' = calls w @
               [ToBufferCall (FromBuffer A) [Png], MetadataCall (FromBuffer B),
                ToBufferCall (FromBuffer png1) [resize],
                ToBufferCall (FromBuffer resized) [Composite [opts']]] \<and>
             (case toBuffer eng (files w) (FromBuffer resized) [Composite [opts']] of
                Inr out \<Rightarrow> res = Inr out
              | Inl m \<Rightarrow>
                  res = Inl (InternalServerErrorException m ''Error composing images'')))))"
  using assms
  unfolding composeImages_def getMetadata_def service_simps compose_resize_def Let_def
  by (auto split: sum.splits)

theorem composeImages_steps_witness:
  "\<exists>res opts' w'.
     composeImages demo_engine [1, 7, 9] [1, 3, 4] demo_overlay demo_world = (res, opts', w') \<and>
     res = Inr [0, 3, 4] \<and>
     opts' = demo_overlay\<lparr>input := Some (OverlayBuffer [1, 3, 4])\<rparr> \<and>
     length (calls w') = 4"
proof -
  obtain res opts' w' where run:
    "composeImages demo_engine [1, 7, 9] [1, 3, 4] demo_overlay demo_world = (res, opts', w')"
    by (metis prod_cases3)
  have s1: "toBuffer demo_engine (files demo_world) (FromBuffer [1, 7, 9]) [Png] = Inr [0, 7, 9]"
    by (simp add: demo_simps)
  have s2: "get_metadata demo_engine (files demo_world) (FromBuffer [1, 3, 4]) =
      Inr \<lparr>md_format = Some ''jpeg'', md_width = Some (Num 3), md_height = Some (Num 4),
              md_channels = Some (Num 3), md_hasAlpha = Some False\<rparr>"
    by (simp add: demo_simps)
  have s3: "toBuffer demo_engine (files demo_world) (FromBuffer [0, 7, 9])
      [ResizeWith \<lparr>ro_width = Some (Num 3), ro_height = Some (Num 4), ro_fit = None,
             ro_position = Some (PositionString ''centre''), ro_background = None,
             ro_kernel = None, ro_withoutEnlargement = None, ro_withoutReduction = None,
             ro_fastShrinkOnLoad = None\<rparr>] = Inr [0, 3, 4]"
    by (simp add: demo_simps)
  have s5: "toBuffer demo_engine (files demo_world) (FromBuffer [0, 3, 4])
      [Composite [demo_overlay\<lparr>input := Some (OverlayBuffer [1, 3, 4])\<rparr>]] = Inr [0, 3, 4]"
    by (simp add: demo_simps)
  from composeImages_steps [OF run] s1 s2 s3 s5
  have "res = Inr [0, 3, 4] \<and>
     opts' = demo_overlay\<lparr>input := Some (OverlayBuffer [1, 3, 4])\<rparr> \<and>
     length (calls w') = 4"
    by (auto simp: demo_world_def)
  with run show ?thesis by blast
qed

text \<open>
  Claim C2. When Compose succeeds on a buffer B whose metadata reports a width and a
  height, the returned buffer has the dimensions of B, whatever the dimensions of A. The
  pixel work is the engine's, so the statement is for every engine that honours two rules
  of \<open>sharp\<close>: a resize to a given width and height under the default fit returns an image
  of exactly that size, and a composite pass returns an image of the size of its base.
\<close>

theorem composeImages_dimensions:
  assumes resize_exact:
    "\<And>fs b ro r x y.
       toBuffer eng fs (FromBuffer b) [ResizeWith ro] = Inr r \<Longrightarrow>
       ro_width ro = Some x \<Longrightarrow> ro_height ro = Some y \<Longrightarrow> ro_fit ro = None \<Longrightarrow>
       dimensions_of eng fs r = Some (Some x, Some y)"
    and composite_keeps:
    "\<And>fs b ovs r.
       toBuffer eng fs (FromBuffer b) [Composite ovs] = Inr r \<Longrightarrow>
       dimensions_of eng fs r = dimensions_of eng fs b"
    and decodable: "dimensions_of eng (files w) B = Some (Some x, Some y)"
    and success: "composeImages eng A B opts w = (Inr r, opts', w')"
  shows "dimensions_of eng (files w') r = dimensions_of eng (files w) B"
proof -
  from composeImages_success [OF success] obtain png1 md resized where
    md: "get_metadata eng (files w) (FromBuffer B) = Inr md" and
    rs: "toBuffer eng (files w) (FromBuffer png1) [ResizeWith (compose_resize md)] = Inr resized" and
    cp: "toBuffer eng (files w) (FromBuffer resized)
           [Composite [opts\<lparr>input := Some (OverlayBuffer B)\<rparr>]] = Inr r" and
    fs: "files w' = files w"
    by blast
  from md decodable have wh: "md_width md = Some x" "md_height md = Some y"
    by (simp_all add: dimensions_of_def)
  have "dimensions_of eng (files w) resized = Some (Some x, Some y)"
    by (rule resize_exact [OF rs]) (simp_all add: compose_resize_def wh)
  moreover have "dimensions_of eng (files w) r = dimensions_of eng (files w) resized"
    by (rule composite_keeps [OF cp])
  ultimately show ?thesis
    using decodable fs by simp
qed

theorem composeImages_dimensions_witness:
  "dimensions_of demo_engine (files demo_world) [1, 3, 4] = Some (Some (Num 3), Some (Num 4)) \<and>
   fst (composeImages demo_engine [1, 7, 9] [1, 3, 4] demo_overlay demo_world) = Inr [0, 3, 4] \<and>
   dimensions_of demo_engine [] [0, 3, 4] =
     dimensions_of demo_engine (files demo_world) [1, 3, 4]"
proof -
  have decodable:
    "dimensions_of demo_engine (files demo_world) [1, 3, 4] = Some (Some (Num 3), Some (Num 4))"
    by (simp add: dimensions_of_def demo_metadata_image)
  have "dimensions_of demo_engine
          (files \<lparr>files = [],
       logged = [LogDebug ''composing images'', LogDebug ''getting image metadata''],
       calls =
         [ToBufferCall (FromBuffer [1, 7, 9]) [Png],
          MetadataCall (FromBuffer [1, 3, 4]),
          ToBufferCall (FromBuffer [0, 7, 9]) [ResizeWith (compose_resize
             \<lparr>md_format = Some ''jpeg'', md_width = Some (Num 3), md_height = Some (Num 4),
              md_channels = Some (Num 3), md_hasAlpha = Some False\<rparr>)],
          ToBufferCall (FromBuffer [0, 3, 4])
            [Composite [demo_overlay\<lparr>input := Some (OverlayBuffer [1, 3, 4])\<rparr>]]]\<rparr>)
          [0, 3, 4] =
        dimensions_of demo_engine (files demo_world) [1, 3, 4]"
  proof (rule composeImages_dimensions [OF _ _ decodable demo_compose_run])
    show "dimensions_of demo_engine fs r = Some (Some x, Some y)"
      if "toBuffer demo_engine fs (FromBuffer b) [ResizeWith ro] = Inr r"
        and "ro_width ro = Some x" and "ro_height ro = Some y" and "ro_fit ro = None"
      for fs b ro r x y
      using that(1,2,3) by (rule demo_resize_exact)
    show "dimensions_of demo_engine fs r = dimensions_of demo_engine fs b"
      if "toBuffer demo_engine fs (FromBuffer b) [Composite ovs] = Inr r" for fs b ovs r
      using demo_composite_same [OF that] by simp
  qed
  moreover have "fst (composeImages demo_engine [1, 7, 9] [1, 3, 4] demo_overlay demo_world) =
      Inr [0, 3, 4]"
    by (subst demo_compose_run) simp
  ultimately show ?thesis
    using decodable by simp
qed

text \<open>
  Claim C10. When Compose succeeds, the returned buffer is PNG-encoded, whatever the
  formats of A and B. The statement is for every engine that honours three rules of
  \<open>sharp\<close>: the output of a pipeline that asks for \<open>png()\<close> is a PNG, and a resize
  or a composite pass with no output format named keeps the format of its input.
\<close>

theorem composeImages_png:
  assumes png_encodes:
    "\<And>fs src r. toBuffer eng fs src [Png] = Inr r \<Longrightarrow> format_of eng fs r = Some ''png''"
    and resize_keeps:
    "\<And>fs b ro r. toBuffer eng fs (FromBuffer b) [ResizeWith ro] = Inr r \<Longrightarrow>
       format_of eng fs r = format_of eng fs b"
    and composite_keeps:
    "\<And>fs b ovs r. toBuffer eng fs (FromBuffer b) [Composite ovs] = Inr r \<Longrightarrow>
       format_of eng fs r = format_of eng fs b"
    and success: "composeImages eng A B opts w = (Inr r, opts', w')"
  shows "format_of eng (files w') r = Some ''png''"
proof -
  from composeImages_success [OF success] obtain png1 md resized where
    pg: "toBuffer eng (files w) (FromBuffer A) [Png] = Inr png1" and
    rs: "toBuffer eng (files w) (FromBuffer png1) [ResizeWith (compose_resize md)] = Inr resized" and
    cp: "toBuffer eng (files w) (FromBuffer resized)
           [Composite [opts\<lparr>input := Some (OverlayBuffer B)\<rparr>]] = Inr r" and
    fs: "files w' = files w"
    by blast
  have "format_of eng (files w) r = format_of eng (files w) resized"
    by (rule composite_keeps [OF cp])
  also have "\<dots> = format_of eng (files w) png1"
    by (rule resize_keeps [OF rs])
  also have "\<dots> = Some ''png''"
    by (rule png_encodes [OF pg])
  finally show ?thesis
    using fs by simp
qed

theorem composeImages_png_witness:
  "fst (composeImages demo_engine [1, 7, 9] [1, 3, 4] demo_overlay demo_world) = Inr [0, 3, 4] \<and>
   format_of demo_engine [] [1, 7, 9] = Some ''jpeg'' \<and>
   format_of demo_engine [] [0, 3, 4] = Some ''png''"
proof -
  have "format_of demo_engine
          (files \<lparr>files = [],
       logged = [LogDebug ''composing images'', LogDebug ''getting image metadata''],
       calls =
         [ToBufferCall (FromBuffer [1, 7, 9]) [Png],
          MetadataCall (FromBuffer [1, 3, 4]),
          ToBufferCall (FromBuffer [0, 7, 9]) [ResizeWith (compose_resize
             \<lparr>md_format = Some ''jpeg'', md_width = Some (Num 3), md_height = Some (Num 4),
              md_channels = Some (Num 3), md_hasAlpha = Some False\<rparr>)],
          ToBufferCall (FromBuffer [0, 3, 4])
            [Composite [demo_overlay\<lparr>input := Some (OverlayBuffer [1, 3, 4])\<rparr>]]]\<rparr>)
          [0, 3, 4] = Some ''png''"
  proof (rule composeImages_png [OF _ _ _ demo_compose_run])
    show "format_of demo_engine fs r = Some ''png''"
      if "toBuffer demo_engine fs src [Png] = Inr r" for fs src r
      using that by (rule demo_png_format)
    show "format_of demo_engine fs r = format_of demo_engine fs b"
      if "toBuffer demo_engine fs (FromBuffer b) [ResizeWith ro] = Inr r" for fs b ro r
      using that by (rule demo_resize_format)
    show "format_of demo_engine fs r = format_of demo_engine fs b"
      if "toBuffer demo_engine fs (FromBuffer b) [Composite ovs] = Inr r" for fs b ovs r
      using demo_composite_same [OF that] by simp
  qed
  moreover have "fst (composeImages demo_engine [1, 7, 9] [1, 3, 4] demo_overlay demo_world) =
      Inr [0, 3, 4]"
    by (subst demo_compose_run) simp
  moreover have "format_of demo_engine [] [1, 7, 9] = Some ''jpeg''"
    by (simp add: format_of_def demo_metadata_image demo_format_def)
  ultimately show ?thesis
    by simp
qed

section \<open>Failures\<close>

text \<open>
  An operation with one engine run returns the buffer of the run, or the exception with the
  message of the engine's error and the summary of its \<open>catch\<close> block; the engine's own
  error never reaches the caller.
\<close>

lemma try_catch_metadata:
  "fst (try_catch text summary (run_metadata eng src w)) =
     processing_failure summary (get_metadata eng (files w) src)"
  unfolding try_catch_def catch_rethrow_def run_metadata_def processing_failure_def
  by (cases "get_metadata eng (files w) src") simp_all

lemma try_catch_stats:
  "fst (try_catch text summary (run_stats eng src w)) =
     processing_failure summary (get_stats eng (files w) src)"
  unfolding try_catch_def catch_rethrow_def run_stats_def processing_failure_def
  by (cases "get_stats eng (files w) src") simp_all

lemma try_catch_toFile:
  "fst (try_catch text summary (run_toFile eng src target w)) =
     processing_failure summary (fst (toFile eng (files w) src target))"
  unfolding try_catch_def catch_rethrow_def run_toFile_def processing_failure_def
  by (cases "toFile eng (files w) src target"; cases "fst (toFile eng (files w) src target)")
    simp_all

lemma single_run_results:
  "fst (getMetadata eng b w) =
     processing_failure ''Error getting image metadata''
       (get_metadata eng (files w) (FromBuffer b))"
  "fst (getStats eng b w) =
     processing_failure ''Error getting image stats'' (get_stats eng (files w) (FromBuffer b))"
  "fst (storeImage eng b path imageName w) =
     processing_failure ''Error storing image''
       (fst (toFile eng (files w) (FromBuffer b) (path @ ''/'' @ imageName)))"
  "fst (convertFormat eng imagePath cp w) =
     processing_failure ''Error converting image''
       (toBuffer eng (files w) (FromPath imagePath) [ToFormat (cp_format cp) (cp_options cp)])"
  "fst (resizeImage eng b rp w) =
     processing_failure ''Error converting image''
       (toBuffer eng (files w) (FromBuffer b) [Resize (rp_width rp) (rp_height rp)])"
  "fst (getImageBuffer eng imagePath w) =
     processing_failure ''Error getting image buffer''
       (toBuffer eng (files w) (FromPath imagePath) [])"
  "fst (cropImage eng b cr w) =
     processing_failure ''Error cropping image''
       (toBuffer eng (files w) (FromBuffer b) [Extract cr])"
  "fst (rotateImage eng b rt w) =
     processing_failure ''Error rotating image''
       (toBuffer eng (files w) (FromBuffer b) [Rotate (angle rt) (rot_options rt)])"
  "fst (verticalFlipImage eng b w) =
     processing_failure ''Error flipping image vertical''
       (toBuffer eng (files w) (FromBuffer b) [Flip])"
  "fst (horizontalFlipImage eng b w) =
     processing_failure ''Error flipping image vertical''
       (toBuffer eng (files w) (FromBuffer b) [Flop])"
  "fst (trimImage eng b trimLevel w) =
     processing_failure ''Error trim image''
       (toBuffer eng (files w) (FromBuffer b) [Trim (or_number trimLevel (Num 10))])"
  "fst (setTransparencyBackgroundColor eng b c w) =
     processing_failure ''Error setting transparency background color''
       (toBuffer eng (files w) (FromBuffer b) [Flatten c])"
  unfolding getMetadata_def getStats_def storeImage_def convertFormat_def resizeImage_def
    getImageBuffer_def cropImage_def rotateImage_def verticalFlipImage_def
    horizontalFlipImage_def trimImage_def setTransparencyBackgroundColor_def Let_def
  by (simp_all add: try_catch_toBuffer try_catch_metadata try_catch_stats try_catch_toFile
        files_logger_debug split: option.split)

lemma processing_failure_wrapped: "processing_failure summary r \<noteq> Inl (EngineError m)"
  by (cases r) (simp_all add: processing_failure_def)

text \<open>
  Claim C3 asks for a summary that identifies the failing operation. On a buffer the engine
  cannot decode, Resize raises the failure with the engine's message and the summary of
  Convert Format, \<open>Error converting image\<close>, and the horizontal flip raises it with the
  summary of the vertical flip, \<open>Error flipping image vertical\<close>.
\<close>

theorem failure_summaries_mislabelled:
  "fst (resizeImage demo_engine [1, 7]
          \<lparr>rp_width = Some (Num 2), rp_height = Some (Num 2), rp_options = None\<rparr> demo_world) =
     Inl (InternalServerErrorException ''Input buffer contains unsupported image format''
            ''Error converting image'') \<and>
   fst (horizontalFlipImage demo_engine [1, 7] demo_world) =
     Inl (InternalServerErrorException ''Input buffer contains unsupported image format''
            ''Error flipping image vertical'')"
  by (simp add: resizeImage_def horizontalFlipImage_def service_simps demo_simps)

text \<open>
  Claim C7 says that a crop rectangle exceeding the bounds of the image always makes Crop
  raise the failure. Crop checks no bounds: it returns what the engine's extract returns.
  With the engine that reads the rectangle as 32-bit integers, a rectangle that starts
  \<open>2\<^sup>3\<^sup>2\<close> pixels to the right of an image of one pixel exceeds its bounds, and Crop
  returns a buffer.
\<close>

theorem cropImage_returns_out_of_bounds:
  "dimensions_of int32_engine (files demo_world) [0, 1, 1] = Some (Some (Num 1), Some (Num 1)) \<and>
   exceeds_bounds
     \<lparr>crop_left = Num 4294967296, crop_top = Num 0, crop_width = Num 1, crop_height = Num 1\<rparr>
     1 1 \<and>
   fst (cropImage int32_engine [0, 1, 1]
          \<lparr>crop_left = Num 4294967296, crop_top = Num 0, crop_width = Num 1,
           crop_height = Num 1\<rparr> demo_world) = Inr [0, 1, 1]"
  by (simp add: dimensions_of_def exceeds_bounds_def int32_engine_def cropImage_def
        service_simps demo_simps)

text \<open>
  Claim C7, amended. Crop makes one engine request, the extract of the rectangle exactly
  as the caller gave it, and neither checks nor clamps the rectangle itself. When this
  request fails, Crop raises the failure for cropping with the engine's message and
  returns no buffer; when it succeeds, Crop returns its buffer.
\<close>

theorem cropImage_delegates:
  "calls (snd (cropImage eng I R w)) = calls w @ [ToBufferCall (FromBuffer I) [Extract R]] \<and>
   (case toBuffer eng (files w) (FromBuffer I) [Extract R] of
      Inl m \<Rightarrow>
        fst (cropImage eng I R w) = Inl (InternalServerErrorException m ''Error cropping image'')
    | Inr out \<Rightarrow> fst (cropImage eng I R w) = Inr out)"
proof -
  have "fst (cropImage eng I R w) =
          processing_failure ''Error cropping image''
            (toBuffer eng (files w) (FromBuffer I) [Extract R])"
    unfolding cropImage_def try_catch_toBuffer files_logger_debug by (rule refl)
  moreover have
    "calls (snd (cropImage eng I R w)) = calls w @ [ToBufferCall (FromBuffer I) [Extract R]]"
    unfolding cropImage_def calls_try_catch_toBuffer by (simp add: logger_debug_def)
  ultimately show ?thesis
    by (simp add: processing_failure_def split: sum.split)
qed


section \<open>Resize\<close>

text \<open>
  Claim C4 asks that the \<open>options\<close> of the resize properties (fit, position, kernel,
  enlargement and reduction policy) reach the engine. Resize passes the width and the
  height only: whatever the options are, the result, the log and the engine requests are
  the same.
\<close>

theorem resizeImage_ignores_options:
  "resizeImage eng imageBuffer (resizeProperties\<lparr>rp_options := opts1\<rparr>) w =
   resizeImage eng imageBuffer (resizeProperties\<lparr>rp_options := opts2\<rparr>) w"
  by (simp add: resizeImage_def)

section \<open>Effects on the caller and on the file system\<close>

text \<open>
  Claim C5 says that Compose leaves the caller's composite options unchanged. After a
  successful Compose of two buffers with options that name no input, the caller's options
  are no longer the ones that were passed.
\<close>

theorem composeImages_mutates_options:
  "fst (snd (composeImages demo_engine [1, 7, 9] [1, 3, 4] demo_overlay demo_world)) \<noteq>
     demo_overlay"
  by (simp add: composeImages_def getMetadata_def service_simps demo_simps compose_resize_def
        Let_def)

text \<open>
  Claim C5, amended. No operation but Store changes the file system, and Store changes it
  by the engine's file write to \<open>path/imageName\<close> alone. Compose leaves every field of the
  caller's composite options as it was except \<open>input\<close>, which it sets to buffer B once
  buffer A has been normalised, B's metadata read and A resized; when one of these three
  steps fails the options are unchanged. (Every operation also writes log lines.)
\<close>

theorem operations_frame:
  "files (snd (getMetadata eng b w)) = files w \<and>
   files (snd (getStats eng b w)) = files w \<and>
   files (snd (convertFormat eng imagePath cp w)) = files w \<and>
   files (snd (resizeImage eng b rp w)) = files w \<and>
   files (snd (getImageBuffer eng imagePath w)) = files w \<and>
   files (snd (cropImage eng b cr w)) = files w \<and>
   files (snd (rotateImage eng b rt w)) = files w \<and>
   files (snd (verticalFlipImage eng b w)) = files w \<and>
   files (snd (horizontalFlipImage eng b w)) = files w \<and>
   files (snd (setImageEffects eng b ep w)) = files w \<and>
   files (snd (trimImage eng b trimLevel w)) = files w \<and>
   files (snd (setTransparencyBackgroundColor eng b c w)) = files w \<and>
   files (snd (snd (composeImages eng A B opts w))) = files w \<and>
   fst (snd (composeImages eng A B opts w)) =
     (if compose_prepared eng (files w) A B = None then opts
      else opts\<lparr>input := Some (OverlayBuffer B)\<rparr>) \<and>
   files (snd (storeImage eng b path imageName w)) =
     snd (toFile eng (files w) (FromBuffer b) (path @ ''/'' @ imageName))"
proof -
  have "files (snd (convertFormat eng imagePath cp w)) = files w"
    by (cases "cp_options cp") (simp_all add: convertFormat_def Let_def files_simps)
  then show ?thesis
    using composeImages_frame [of eng A B opts w] files_setImageEffects [of eng b ep w]
    by (simp add: getMetadata_def getStats_def resizeImage_def getImageBuffer_def
          cropImage_def rotateImage_def verticalFlipImage_def horizontalFlipImage_def
          trimImage_def setTransparencyBackgroundColor_def storeImage_def files_simps)
qed

section \<open>Effects\<close>

text \<open>
  Claim C6. The main chain of Effects is median, blur, negate, grayscale, modulate
  (brightness, saturation, hue, lightness), tint, in this order, where an absent numeric
  option takes its fallback (median 3, blur 0.3, brightness, saturation and lightness 1,
  hue 0) and a supplied nonzero one is passed as it is. The threshold pre-pass runs if and
  only if a nonzero threshold is supplied: then the first engine request thresholds the
  input buffer, and the chain runs on the buffer this request returns (or, when the
  pre-pass fails, the operation fails and the chain is not run); otherwise the chain is
  the only request and runs on the input buffer.
\<close>

theorem setImageEffects_order:
  assumes "setImageEffects eng buf ep w = (res, w')"
  shows
    "(\<exists>m b n g br s h l.
        effects_chain ep =
          [Median m, Blur b, Negate n, Grayscale g, Modulate br s h l, Tint (tint ep)] \<and>
        (median ep = None \<longrightarrow> m = Num 3) \<and>
        (blur ep = None \<longrightarrow> b = Num 0.3) \<and>
        (brightness ep = None \<longrightarrow> br = Num 1) \<and>
        (saturation ep = None \<longrightarrow> s = Num 1) \<and>
        (hue ep = None \<longrightarrow> h = Num 0) \<and>
        (lightness ep = None \<longrightarrow> l = Num 1) \<and>
        (nonzero_supplied (median ep) \<longrightarrow> median ep = Some m) \<and>
        (nonzero_supplied (blur ep) \<longrightarrow> blur ep = Some b) \<and>
        (nonzero_supplied (brightness ep) \<longrightarrow> brightness ep = Some br) \<and>
        (nonzero_supplied (saturation ep) \<longrightarrow> saturation ep = Some s) \<and>
        (nonzero_supplied (hue ep) \<longrightarrow> hue ep = Some h) \<and>
        (nonzero_supplied (lightness ep) \<longrightarrow> lightness ep = Some l)) \<and>
     (\<not> nonzero_supplied (threshold ep) \<longrightarrow>
        calls w' = calls w @ [ToBufferCall (FromBuffer buf) (effects_chain ep)] \<and>
        res = processing_failure ''Error applying image effects''
                (toBuffer eng (files w) (FromBuffer buf) (effects_chain ep))) \<and>
     (nonzero_supplied (threshold ep) \<longrightarrow>
        (\<exists>t g. threshold ep = Some t \<and> g = (thresholdGrayscale ep = Some True) \<and>
           (\<forall>m. toBuffer eng (files w) (FromBuffer buf) [Threshold t g] = Inl m \<longrightarrow>
              calls w' = calls w @ [ToBufferCall (FromBuffer buf) [Threshold t g]] \<and>
              res = Inl (InternalServerErrorException m ''Error applying image effects'')) \<and>
           (\<forall>working. toBuffer eng (files w) (FromBuffer buf) [Threshold t g] = Inr working \<longrightarrow>
              calls w' = calls w @
                [ToBufferCall (FromBuffer buf) [Threshold t g],
                 ToBufferCall (FromBuffer working) (effects_chain ep)] \<and>
              res = processing_failure ''Error applying image effects''
                      (toBuffer eng (files w) (FromBuffer working) (effects_chain ep)))))"
proof (intro conjI impI)
  show "\<exists>m b n g br s h l.
        effects_chain ep =
          [Median m, Blur b, Negate n, Grayscale g, Modulate br s h l, Tint (tint ep)] \<and>
        (median ep = None \<longrightarrow> m = Num 3) \<and>
        (blur ep = None \<longrightarrow> b = Num 0.3) \<and>
        (brightness ep = None \<longrightarrow> br = Num 1) \<and>
        (saturation ep = None \<longrightarrow> s = Num 1) \<and>
        (hue ep = None \<longrightarrow> h = Num 0) \<and>
        (lightness ep = None \<longrightarrow> l = Num 1) \<and>
        (nonzero_supplied (median ep) \<longrightarrow> median ep = Some m) \<and>
        (nonzero_supplied (blur ep) \<longrightarrow> blur ep = Some b) \<and>
        (nonzero_supplied (brightness ep) \<longrightarrow> brightness ep = Some br) \<and>
        (nonzero_supplied (saturation ep) \<longrightarrow> saturation ep = Some s) \<and>
        (nonzero_supplied (hue ep) \<longrightarrow> hue ep = Some h) \<and>
        (nonzero_supplied (lightness ep) \<longrightarrow> lightness ep = Some l)"
  proof -
    have absent: "or_number None d = d" for d
      by (simp add: or_number_def)
    show ?thesis
      by (simp add: effects_chain_def or_number_supplied [symmetric] absent)
  qed
next
  assume plain: "\<not> nonzero_supplied (threshold ep)"
  from assms show "calls w' = calls w @ [ToBufferCall (FromBuffer buf) (effects_chain ep)]"
    unfolding setImageEffects_plain [OF plain]
    using calls_try_catch_toBuffer
      [of "''Error applying image effects''" "''Error applying image effects''" eng
        "FromBuffer buf" "effects_chain ep" "logger_debug ''applying image effects'' w"]
    by (simp add: logger_debug_def)
  from assms show "res = processing_failure ''Error applying image effects''
                (toBuffer eng (files w) (FromBuffer buf) (effects_chain ep))"
    unfolding setImageEffects_plain [OF plain]
    using try_catch_toBuffer
      [of "''Error applying image effects''" "''Error applying image effects''" eng
        "FromBuffer buf" "effects_chain ep" "logger_debug ''applying image effects'' w"]
    by (simp add: logger_debug_def)
next
  assume supplied: "nonzero_supplied (threshold ep)"
  let ?t = "or_number (threshold ep) (Num 120)"
  let ?g = "or_bool (thresholdGrayscale ep) False"
  have t: "threshold ep = Some ?t"
    by (rule or_number_supplied [OF supplied])
  have fails: "calls w' = calls w @ [ToBufferCall (FromBuffer buf) [Threshold ?t ?g]] \<and>
      res = Inl (InternalServerErrorException m ''Error applying image effects'')"
    if "toBuffer eng (files w) (FromBuffer buf) [Threshold ?t ?g] = Inl m" for m
    using assms unfolding setImageEffects_threshold_fails [OF supplied that] by auto
  have passes: "calls w' = calls w @
                [ToBufferCall (FromBuffer buf) [Threshold ?t ?g],
                 ToBufferCall (FromBuffer working) (effects_chain ep)] \<and>
              res = processing_failure ''Error applying image effects''
                      (toBuffer eng (files w) (FromBuffer working) (effects_chain ep))"
    if "toBuffer eng (files w) (FromBuffer buf) [Threshold ?t ?g] = Inr working" for working
    using assms unfolding setImageEffects_threshold_passes [OF supplied that]
    using calls_try_catch_toBuffer
      [of "''Error applying image effects''" "''Error applying image effects''" eng
        "FromBuffer working" "effects_chain ep"
        "w\<lparr>logged := logged w @ [LogDebug ''applying image effects''],
             calls := calls w @ [ToBufferCall (FromBuffer buf) [Threshold ?t ?g]]\<rparr>"]
      try_catch_toBuffer
      [of "''Error applying image effects''" "''Error applying image effects''" eng
        "FromBuffer working" "effects_chain ep"
        "w\<lparr>logged := logged w @ [LogDebug ''applying image effects''],
             calls := calls w @ [ToBufferCall (FromBuffer buf) [Threshold ?t ?g]]\<rparr>"]
    by simp
  have g: "?g = (thresholdGrayscale ep = Some True)"
    by (cases "thresholdGrayscale ep") (auto simp: or_bool_def)
  from t fails passes
  show "\<exists>t g. threshold ep = Some t \<and> g = (thresholdGrayscale ep = Some True) \<and>
           (\<forall>m. toBuffer eng (files w) (FromBuffer buf) [Threshold t g] = Inl m \<longrightarrow>
              calls w' = calls w @ [ToBufferCall (FromBuffer buf) [Threshold t g]] \<and>
              res = Inl (InternalServerErrorException m ''Error applying image effects'')) \<and>
           (\<forall>working. toBuffer eng (files w) (FromBuffer buf) [Threshold t g] = Inr working \<longrightarrow>
              calls w' = calls w @
                [ToBufferCall (FromBuffer buf) [Threshold t g],
                 ToBufferCall (FromBuffer working) (effects_chain ep)] \<and>
              res = processing_failure ''Error applying image effects''
                      (toBuffer eng (files w) (FromBuffer working) (effects_chain ep)))"
    unfolding g by blast
qed

theorem setImageEffects_order_witness:
  "\<exists>res w'.
     setImageEffects demo_engine [0, 5, 5] demo_effects demo_world = (res, w') \<and>
     res = Inr [0, 5, 5] \<and>
     calls w' =
       [ToBufferCall (FromBuffer [0, 5, 5]) [Threshold (Num 128) False],
        ToBufferCall (FromBuffer [0, 5, 5])
          [Median (Num 3), Blur (Num 0.3), Negate False, Grayscale True,
           Modulate (Num 1) (Num 2) (Num 0) (Num 1), Tint None]]"
proof -
  obtain res w' where run:
    "setImageEffects demo_engine [0, 5, 5] demo_effects demo_world = (res, w')"
    by (metis surj_pair)
  have supplied: "nonzero_supplied (threshold demo_effects)"
    by (simp add: demo_effects_def nonzero_supplied_def)
  have t: "threshold demo_effects = Some (Num 128)"
    "(thresholdGrayscale demo_effects = Some True) = False"
    by (simp_all add: demo_effects_def)
  have chain: "effects_chain demo_effects =
      [Median (Num 3), Blur (Num 0.3), Negate False, Grayscale True,
       Modulate (Num 1) (Num 2) (Num 0) (Num 1), Tint None]"
    by (simp add: effects_chain_def or_number_def or_bool_def demo_effects_def)
  have pre: "toBuffer demo_engine (files demo_world) (FromBuffer [0, 5, 5])
      [Threshold (Num 128) False] = Inr [0, 5, 5]"
    by (simp add: demo_simps)
  have main: "toBuffer demo_engine (files demo_world) (FromBuffer [0, 5, 5])
      [Median (Num 3), Blur (Num 0.3), Negate False, Grayscale True,
       Modulate (Num 1) (Num 2) (Num 0) (Num 1), Tint None] = Inr [0, 5, 5]"
    by (simp add: demo_simps)
  have start: "calls demo_world = []"
    by (simp add: demo_world_def)
  from setImageEffects_order [OF run] supplied
  have "res = Inr [0, 5, 5] \<and>
     calls w' =
       [ToBufferCall (FromBuffer [0, 5, 5]) [Threshold (Num 128) False],
        ToBufferCall (FromBuffer [0, 5, 5])
          [Median (Num 3), Blur (Num 0.3), Negate False, Grayscale True,
           Modulate (Num 1) (Num 2) (Num 0) (Num 1), Tint None]]"
    unfolding t chain using pre main start
    by (auto simp: processing_failure_def)
  with run show ?thesis
    by blast
qed

text \<open>
  Claim C9. In Effects, setting median, blur, brightness, saturation or lightness to 0 is
  the same call as leaving the option out. With all five at 0, the chain that the operation
  sends to the engine (after the threshold pre-pass, when there is one and it succeeds)
  carries the fallbacks: median 3, blur 0.3, brightness, saturation and lightness 1. And
  whatever the properties are, no request that the operation makes carries the value 0 for
  one of these five.
\<close>

theorem effects_zero_is_fallback:
  "setImageEffects eng b (ep\<lparr>median := Some (Num 0)\<rparr>) w =
     setImageEffects eng b (ep\<lparr>median := None\<rparr>) w \<and>
   setImageEffects eng b (ep\<lparr>blur := Some (Num 0)\<rparr>) w =
     setImageEffects eng b (ep\<lparr>blur := None\<rparr>) w \<and>
   setImageEffects eng b (ep\<lparr>brightness := Some (Num 0)\<rparr>) w =
     setImageEffects eng b (ep\<lparr>brightness := None\<rparr>) w \<and>
   setImageEffects eng b (ep\<lparr>saturation := Some (Num 0)\<rparr>) w =
     setImageEffects eng b (ep\<lparr>saturation := None\<rparr>) w \<and>
   setImageEffects eng b (ep\<lparr>lightness := Some (Num 0)\<rparr>) w =
     setImageEffects eng b (ep\<lparr>lightness := None\<rparr>) w \<and>
   calls (snd (setImageEffects eng b
     (ep\<lparr>median := Some (Num 0), blur := Some (Num 0), brightness := Some (Num 0),
         saturation := Some (Num 0), lightness := Some (Num 0)\<rparr>) w)) =
     calls w @
       (if nonzero_supplied (threshold ep) then
          ToBufferCall (FromBuffer b)
            [Threshold (the (threshold ep)) (thresholdGrayscale ep = Some True)] #
          (case toBuffer eng (files w) (FromBuffer b)
                  [Threshold (the (threshold ep)) (thresholdGrayscale ep = Some True)] of
             Inl m \<Rightarrow> []
           | Inr working \<Rightarrow>
               [ToBufferCall (FromBuffer working)
                  [Median (Num 3), Blur (Num 0.3), Negate (negate ep = Some True),
                   Grayscale (grayscale ep = Some True),
                   Modulate (Num 1) (Num 1)
                     (if nonzero_supplied (hue ep) then the (hue ep) else Num 0) (Num 1),
                   Tint (tint ep)]])
        else
          [ToBufferCall (FromBuffer b)
             [Median (Num 3), Blur (Num 0.3), Negate (negate ep = Some True),
              Grayscale (grayscale ep = Some True),
              Modulate (Num 1) (Num 1)
                (if nonzero_supplied (hue ep) then the (hue ep) else Num 0) (Num 1),
              Tint (tint ep)]]) \<and>
   \<not> (\<exists>src ops.
         ToBufferCall src ops \<in>
           set (drop (length (calls w)) (calls (snd (setImageEffects eng b ep w)))) \<and>
         (Median (Num 0) \<in> set ops \<or> Blur (Num 0) \<in> set ops \<or>
          (\<exists>x y z. Modulate (Num 0) x y z \<in> set ops \<or> Modulate x (Num 0) y z \<in> set ops \<or>
                   Modulate x y z (Num 0) \<in> set ops)))"
proof -
  have chain:
    "effects_chain (ep\<lparr>median := Some (Num 0)\<rparr>) = effects_chain (ep\<lparr>median := None\<rparr>)"
    "effects_chain (ep\<lparr>blur := Some (Num 0)\<rparr>) = effects_chain (ep\<lparr>blur := None\<rparr>)"
    "effects_chain (ep\<lparr>brightness := Some (Num 0)\<rparr>) = effects_chain (ep\<lparr>brightness := None\<rparr>)"
    "effects_chain (ep\<lparr>saturation := Some (Num 0)\<rparr>) = effects_chain (ep\<lparr>saturation := None\<rparr>)"
    "effects_chain (ep\<lparr>lightness := Some (Num 0)\<rparr>) = effects_chain (ep\<lparr>lightness := None\<rparr>)"
    by (simp_all add: effects_chain_def or_number_def)
  have same:
    "setImageEffects eng b (ep\<lparr>median := Some (Num 0)\<rparr>) w =
       setImageEffects eng b (ep\<lparr>median := None\<rparr>) w"
    "setImageEffects eng b (ep\<lparr>blur := Some (Num 0)\<rparr>) w =
       setImageEffects eng b (ep\<lparr>blur := None\<rparr>) w"
    "setImageEffects eng b (ep\<lparr>brightness := Some (Num 0)\<rparr>) w =
       setImageEffects eng b (ep\<lparr>brightness := None\<rparr>) w"
    "setImageEffects eng b (ep\<lparr>saturation := Some (Num 0)\<rparr>) w =
       setImageEffects eng b (ep\<lparr>saturation := None\<rparr>) w"
    "setImageEffects eng b (ep\<lparr>lightness := Some (Num 0)\<rparr>) w =
       setImageEffects eng b (ep\<lparr>lightness := None\<rparr>) w"
    unfolding setImageEffects_def chain by (simp_all add: Let_def cong: if_cong)
  let ?zeros = "ep\<lparr>median := Some (Num 0), blur := Some (Num 0), brightness := Some (Num 0),
         saturation := Some (Num 0), lightness := Some (Num 0)\<rparr>"
  have fallback:
    "effects_chain ?zeros =
     [Median (Num 3), Blur (Num 0.3), Negate (negate ep = Some True),
      Grayscale (grayscale ep = Some True),
      Modulate (Num 1) (Num 1) (if nonzero_supplied (hue ep) then the (hue ep) else Num 0)
        (Num 1),
      Tint (tint ep)]"
    by (simp add: effects_chain_def or_bool_False or_number_cases nonzero_supplied_def)
  have sent: "calls (snd (setImageEffects eng b ?zeros w)) =
     calls w @
       (if nonzero_supplied (threshold ep) then
          ToBufferCall (FromBuffer b)
            [Threshold (the (threshold ep)) (thresholdGrayscale ep = Some True)] #
          (case toBuffer eng (files w) (FromBuffer b)
                  [Threshold (the (threshold ep)) (thresholdGrayscale ep = Some True)] of
             Inl m \<Rightarrow> []
           | Inr working \<Rightarrow> [ToBufferCall (FromBuffer working) (effects_chain ?zeros)])
        else [ToBufferCall (FromBuffer b) (effects_chain ?zeros)])"
    using setImageEffects_calls [of eng b ?zeros w] by simp
  have never:
    "Median (Num 0) \<notin> set (effects_chain ep)"
    "Blur (Num 0) \<notin> set (effects_chain ep)"
    "Modulate (Num 0) x y z \<notin> set (effects_chain ep)"
    "Modulate x (Num 0) y z \<notin> set (effects_chain ep)"
    "Modulate x y z (Num 0) \<notin> set (effects_chain ep)" for x y z
    using or_number_never_zero [of "Num 3" "median ep"]
      or_number_never_zero [of "Num 0.3" "blur ep"]
      or_number_never_zero [of "Num 1" "brightness ep"]
      or_number_never_zero [of "Num 1" "saturation ep"]
      or_number_never_zero [of "Num 1" "lightness ep"]
    by (auto simp: effects_chain_def)
  have unselectable: "\<not> (\<exists>src ops.
         ToBufferCall src ops \<in>
           set (drop (length (calls w)) (calls (snd (setImageEffects eng b ep w)))) \<and>
         (Median (Num 0) \<in> set ops \<or> Blur (Num 0) \<in> set ops \<or>
          (\<exists>x y z. Modulate (Num 0) x y z \<in> set ops \<or> Modulate x (Num 0) y z \<in> set ops \<or>
                   Modulate x y z (Num 0) \<in> set ops)))"
    unfolding setImageEffects_calls
    using never by (auto split: if_splits sum.splits)
  from same sent [unfolded fallback] unselectable show ?thesis
    by (intro conjI)
qed

end
